theory Spec2Isabelle
  imports Complex_Main "HOL-Library.Word"
begin

unbundle bit_operations_syntax

section \<open>Common conventions\<close>

text \<open>
  The Python sources compute with \<open>float\<close> and unbounded \<open>int\<close> values read from JSON.
  A finite float is the real number it denotes. Where a float result only feeds further
  float arithmetic, the arithmetic is the exact one on \<open>real\<close>. Where a float result decides
  a discrete outcome, its rounding is part of the model: the quotient that
  \<open>max_simultaneous_trains\<close> floors is rounded to a double (\<open>binary64\<close> below), and the
  distance that \<open>decide_collision_action\<close> compares with 35 is computed with the float
  operations of the platform, which are parameters (\<open>float_ops\<close>). Non-finite floats have
  the type \<open>pyfloat\<close>. A JSON object is a record whose fields are \<open>option\<close>s
  (\<open>None\<close>: the key is absent); keys the code never reads live in the record's extension
  (\<open>more\<close>). \<open>d[k]\<close> on an absent key raises \<open>KeyError\<close>; \<open>d.get(k, dflt)\<close> is \<open>py_get\<close>.
\<close>

datatype py_error = KeyError | ZeroDivisionError | ValueError | OverflowError

definition py_get :: "'a option \<Rightarrow> 'a \<Rightarrow> 'a" where
  "py_get v dflt = (case v of None \<Rightarrow> dflt | Some x \<Rightarrow> x)"

datatype pyfloat = Fin real | PosInf | NegInf | NaN

text \<open>Product of a float with a Python \<open>int\<close>, as IEEE arithmetic extends it to infinities.\<close>

fun pyfloat_times_int :: "pyfloat \<Rightarrow> int \<Rightarrow> pyfloat" where
  "pyfloat_times_int (Fin x) n = Fin (x * real_of_int n)"
| "pyfloat_times_int PosInf n = (if 0 < n then PosInf else if n < 0 then NegInf else NaN)"
| "pyfloat_times_int NegInf n = (if 0 < n then NegInf else if n < 0 then PosInf else NaN)"
| "pyfloat_times_int NaN n = NaN"

subsection \<open>Rounding to a double\<close>

text \<open>
  IEEE 754 binary64, round to nearest, ties to even: a real \<open>x\<close> with binary exponent \<open>e\<close>
  (at least \<open>-1022\<close>, below which the doubles are subnormal) is rounded to a multiple of
  \<open>2 ^ (e - 52)\<close>; a result of magnitude \<open>2 ^ 1024\<close> is an infinity. Float division in Python
  is this rounding of the exact quotient.
\<close>

definition round_half_even :: "real \<Rightarrow> int" where
  "round_half_even x =
     (let f = \<lfloor>x\<rfloor>;
          d = x - real_of_int f
      in if d < 1 / 2 then f
         else if 1 / 2 < d then f + 1
         else if even f then f else f + 1)"

definition binary64 :: "real \<Rightarrow> pyfloat" where
  "binary64 x =
     (if x = 0 then Fin 0
      else
        (let e = max \<lfloor>log 2 \<bar>x\<bar>\<rfloor> (- 1022);
             ulp = 2 powr real_of_int (e - 52);
             r = real_of_int (round_half_even (x / ulp)) * ulp
         in if 2 ^ 1024 \<le> r then PosInf
            else if r \<le> - (2 ^ 1024) then NegInf
            else Fin r))"

section \<open>station\_params.py\<close>

definition G :: real where
  "G = 9.81"

definition kmh_to_mps :: "real \<Rightarrow> real" where
  "kmh_to_mps v_kmh = v_kmh / 3.6"

definition braking_distance :: "real \<Rightarrow> real \<Rightarrow> real" where
  "braking_distance v_kmh mu0 =
     (let v = kmh_to_mps v_kmh;
          mu = (if mu0 \<le> 0 then 0.25 else mu0)
      in (v * v) / (2.0 * mu * G))"

definition reaction_distance :: "real \<Rightarrow> real \<Rightarrow> real" where
  "reaction_distance v_kmh reaction_time_s = (let v = kmh_to_mps v_kmh in v * reaction_time_s)"

definition total_stopping_distance :: "real \<Rightarrow> real \<Rightarrow> real \<Rightarrow> real \<Rightarrow> real" where
  "total_stopping_distance v_kmh mu reaction_time_s margin_factor =
     (let d_brake = braking_distance v_kmh mu;
          d_react = reaction_distance v_kmh reaction_time_s
      in (d_brake + d_react) * margin_factor)"

definition platform_utilization :: "real \<Rightarrow> real \<Rightarrow> real" where
  "platform_utilization arrival_rate_per_hr avg_dwell_s = (arrival_rate_per_hr * avg_dwell_s) / 3600.0"

text \<open>
  \<open>int(math.floor(station_length_m / avg_train_length_m))\<close>: the floor of the double that
  the division returns; \<open>math.floor\<close> raises \<open>OverflowError\<close> on an infinity and
  \<open>ValueError\<close> on a NaN.
\<close>

definition max_simultaneous_trains :: "real \<Rightarrow> real \<Rightarrow> py_error + int" where
  "max_simultaneous_trains station_length_m avg_train_length_m =
     (if avg_train_length_m \<le> 0 then Inr 0
      else
        (case binary64 (station_length_m / avg_train_length_m) of
           Fin q \<Rightarrow> Inr \<lfloor>q\<rfloor>
         | NaN \<Rightarrow> Inl ValueError
         | _ \<Rightarrow> Inl OverflowError))"

definition capacity_per_platform :: "real \<Rightarrow> real \<Rightarrow> pyfloat" where
  "capacity_per_platform avg_dwell_s buffer_s =
     (let denom = avg_dwell_s + buffer_s
      in if denom \<le> 0 then PosInf else Fin (3600.0 / denom))"

definition station_capacity :: "int \<Rightarrow> real \<Rightarrow> real \<Rightarrow> pyfloat" where
  "station_capacity num_platforms avg_dwell_s buffer_s =
     pyfloat_times_int (capacity_per_platform avg_dwell_s buffer_s) (max 1 num_platforms)"

definition risk_index_from_utilization :: "real \<Rightarrow> real \<Rightarrow> real" where
  "risk_index_from_utilization overall_utilization cv = (overall_utilization ^ 2) * (1.0 + cv * cv)"

section \<open>computeTrainParameters.py\<close>

text \<open>
  A train snapshot is the JSON object the server receives. \<open>train_id\<close> is the key \<open>id\<close>;
  the other fields carry the names of their keys.
\<close>

record train =
  train_id :: "string option"
  speed :: "real option"
  progress :: "real option"
  priority :: "real option"
  status :: "string option"
  lat :: "real option"
  lon :: "real option"
  startTime :: "real option"
  now :: "real option"
  prev_speed :: "real option"
  prev_accel :: "real option"

record train_params =
  p1 :: real
  p2 :: real
  p3 :: real
  p4 :: real
  p5 :: real
  p6 :: real
  p7 :: real
  p8 :: real
  p9 :: real
  p10 :: real
  p11 :: real
  p12 :: real
  p13 :: real
  p14 :: real
  p15 :: real
  p16 :: real
  p17 :: real
  p18 :: real
  p19 :: real
  p20 :: real

definition status_map :: "string \<rightharpoonup> real" where
  "status_map = [''RUNNING'' \<mapsto> 0.1, ''STOPPED'' \<mapsto> 0.5, ''EMERGENCY'' \<mapsto> 1.0, ''DELAYED'' \<mapsto> 0.6]"

text \<open>Python's \<open>x % y\<close> on floats: the remainder has the sign of \<open>y\<close>.\<close>

definition py_fmod :: "real \<Rightarrow> real \<Rightarrow> real" where
  "py_fmod x y = x - y * real_of_int \<lfloor>x / y\<rfloor>"

text \<open>
  The body of the loop \<open>for t in trains\<close> after \<open>tid = t["id"]\<close>: the twenty indicators, and
  the speed and acceleration that the last two statements of the body store in the snapshot.
\<close>

definition train_indicators :: "'a train_scheme \<Rightarrow> train_params \<times> real \<times> real" where
  "train_indicators t =
     (let speed_kmh = py_get (speed t) 0;
          progress_v = py_get (progress t) 0;
          priority_v = py_get (priority t) 1;
          status_v = py_get (status t) ''RUNNING'';
          speed_mps = speed_kmh / 3.6;
          p1_v = min 1.0 (speed_kmh / 200.0);
          prev_speed_v = py_get (prev_speed t) speed_kmh;
          accel = (speed_kmh - prev_speed_v) / max 1.0 1.0;
          p2_v = accel / 50.0;
          p2_v = max (- 1.0) (min 1.0 p2_v);
          prev_accel_v = py_get (prev_accel t) accel;
          jerk = accel - prev_accel_v;
          p3_v = jerk / 20.0;
          p3_v = max (- 1.0) (min 1.0 p3_v);
          p4_v = (speed_mps ^ 2) / (40.0 ^ 2);
          p4_v = min 1.0 p4_v;
          p5_v = max 0.0 (min 1.0 progress_v);
          p6_v = 1.0 - p5_v;
          decel = 0.8;
          stopping_distance = (speed_mps ^ 2) / (2 * decel + 1 / 10 ^ 9);
          p7_v = min 1.0 (stopping_distance / 2000.0);
          p8_v = min 1.0 (priority_v / 3.0);
          start_time = py_get (startTime t) 0;
          elapsed = (if start_time > 0 then (py_get (now t) start_time - start_time) / 1000.0 else 0);
          p9_v = min 1.0 (elapsed / 3600.0);
          p10_v = py_get (status_map status_v) 0.2;
          p11_v = 0.0;
          p12_v = \<bar>speed_kmh - prev_speed_v\<bar> / 200.0;
          p13_v = min 1.0 (speed_kmh / max 1.0 (priority_v * 100.0));
          p14_v = 1.0 - min 1.0 \<bar>p3_v\<bar>;
          p15_v = min 1.0 ((speed_mps * 1.0) / 50.0);
          p16_v = p5_v;
          p17_v = (if speed_kmh < 0 then min 1.0 (\<bar>speed_kmh\<bar> / 50.0) else 0.0);
          p18_v = 0.0;
          lat_v = py_get (lat t) 0;
          lon_v = py_get (lon t) 0;
          p19_v = min 1.0 (py_fmod (\<bar>lat_v\<bar> + \<bar>lon_v\<bar>) 1.0);
          p20_v = (p1_v + p5_v + p8_v) / 3.0
      in (\<lparr>p1 = p1_v, p2 = p2_v, p3 = p3_v, p4 = p4_v, p5 = p5_v,
           p6 = p6_v, p7 = p7_v, p8 = p8_v, p9 = p9_v, p10 = p10_v,
           p11 = p11_v, p12 = p12_v, p13 = p13_v, p14 = p14_v, p15 = p15_v,
           p16 = p16_v, p17 = p17_v, p18 = p18_v, p19 = p19_v, p20 = p20_v\<rparr>,
          speed_kmh, accel))"

text \<open>
  The loop. The snapshots are mutated in place, so the function returns their final state
  beside its result, also when \<open>t["id"]\<close> raises in the middle of the list. The list holds
  distinct objects (it is decoded from JSON), so a snapshot is a value of the list.
\<close>

fun train_loop ::
  "'a train_scheme list \<Rightarrow> (string \<rightharpoonup> train_params) \<Rightarrow>
     (py_error + (string \<rightharpoonup> train_params)) \<times> 'a train_scheme list" where
  "train_loop [] results = (Inr results, [])"
| "train_loop (t # ts) results =
     (case train_id t of
        None \<Rightarrow> (Inl KeyError, t # ts)
      | Some tid \<Rightarrow>
          (let (ps, speed_kmh, accel) = train_indicators t;
               t' = t\<lparr>prev_speed := Some speed_kmh, prev_accel := Some accel\<rparr>;
               (r, ts') = train_loop ts (results(tid \<mapsto> ps))
           in (r, t' # ts')))"

definition compute_train_parameters ::
  "'a train_scheme list \<Rightarrow> (py_error + (string \<rightharpoonup> train_params)) \<times> 'a train_scheme list" where
  "compute_train_parameters trains = train_loop trains Map.empty"

text \<open>The entry \<open>results[tid]\<close> of what the call returned, if it returned and has one.\<close>

definition params_of :: "(py_error + (string \<rightharpoonup> train_params)) \<Rightarrow> string \<Rightarrow> train_params option" where
  "params_of r tid = (case r of Inl e \<Rightarrow> None | Inr results \<Rightarrow> results tid)"

subsection \<open>Snapshots of test\_compute\_train\_parameters.py\<close>

text \<open>\<open>T1\<close> and \<open>T2\<close> of \<open>test_basic_functionality\<close>, \<open>train_neg\<close> of \<open>test_edge_cases\<close>.\<close>

definition train_T1 :: train where
  "train_T1 =
     \<lparr>train_id = Some ''T1'', speed = Some 100, progress = Some 0.5, priority = Some 1,
      status = Some ''RUNNING'', lat = Some 28.6139, lon = Some 77.2090,
      startTime = Some 1000000, now = Some 1003600, prev_speed = None, prev_accel = None\<rparr>"

definition train_T2 :: train where
  "train_T2 =
     \<lparr>train_id = Some ''T2'', speed = Some 80, progress = Some 0.3, priority = Some 2,
      status = Some ''STOPPED'', lat = Some 28.6692, lon = Some 77.4538,
      startTime = Some 1000000, now = Some 1007200, prev_speed = None, prev_accel = None\<rparr>"

definition train_neg :: train where
  "train_neg =
     \<lparr>train_id = Some ''T4'', speed = Some (- 50), progress = None, priority = None,
      status = None, lat = None, lon = None,
      startTime = None, now = None, prev_speed = None, prev_accel = None\<rparr>"

section \<open>computeTrackParameters.py\<close>

subsection \<open>The digest: \<open>hashlib.sha256\<close>\<close>

text \<open>
  The seed of an edge is read from the SHA-256 digest of its identity string. The digest is
  the standard one (FIPS 180-4) on bytes; an identity string is the list of the bytes of its
  UTF-8 encoding (one \<open>char\<close> per byte), so that \<open>s.encode("utf-8")\<close> only changes the type.
\<close>

definition rotr :: "nat \<Rightarrow> 32 word \<Rightarrow> 32 word" where
  "rotr n x = (drop_bit n x) OR (push_bit (32 - n) x)"

definition Ch :: "32 word \<Rightarrow> 32 word \<Rightarrow> 32 word \<Rightarrow> 32 word" where
  "Ch x y z = (x AND y) XOR (NOT x AND z)"

definition Maj :: "32 word \<Rightarrow> 32 word \<Rightarrow> 32 word \<Rightarrow> 32 word" where
  "Maj x y z = (x AND y) XOR (x AND z) XOR (y AND z)"

definition bsig0 :: "32 word \<Rightarrow> 32 word" where
  "bsig0 x = rotr 2 x XOR rotr 13 x XOR rotr 22 x"

definition bsig1 :: "32 word \<Rightarrow> 32 word" where
  "bsig1 x = rotr 6 x XOR rotr 11 x XOR rotr 25 x"

definition ssig0 :: "32 word \<Rightarrow> 32 word" where
  "ssig0 x = rotr 7 x XOR rotr 18 x XOR drop_bit 3 x"

definition ssig1 :: "32 word \<Rightarrow> 32 word" where
  "ssig1 x = rotr 17 x XOR rotr 19 x XOR drop_bit 10 x"

text \<open>The round constants and the initial hash value of SHA-256, in decimal.\<close>

definition sha256_K :: "32 word list" where
  "sha256_K =
   [1116352408, 1899447441, 3049323471, 3921009573, 961987163, 1508970993,
    2453635748, 2870763221, 3624381080, 310598401, 607225278, 1426881987,
    1925078388, 2162078206, 2614888103, 3248222580, 3835390401, 4022224774,
    264347078, 604807628, 770255983, 1249150122, 1555081692, 1996064986,
    2554220882, 2821834349, 2952996808, 3210313671, 3336571891, 3584528711,
    113926993, 338241895, 666307205, 773529912, 1294757372, 1396182291,
    1695183700, 1986661051, 2177026350, 2456956037, 2730485921, 2820302411,
    3259730800, 3345764771, 3516065817, 3600352804, 4094571909, 275423344,
    430227734, 506948616, 659060556, 883997877, 958139571, 1322822218,
    1537002063, 1747873779, 1955562222, 2024104815, 2227730452, 2361852424,
    2428436474, 2756734187, 3204031479, 3329325298]"

definition sha256_H0 :: "32 word list" where
  "sha256_H0 =
   [1779033703, 3144134277, 1013904242, 2773480762, 1359893119, 2600822924,
    528734635, 1541459225]"

definition bytes_of_word64 :: "64 word \<Rightarrow> 8 word list" where
  "bytes_of_word64 w = map (\<lambda>i. ucast (drop_bit (8 * (7 - i)) w)) [0..<8]"

definition bytes_of_word32 :: "32 word \<Rightarrow> 8 word list" where
  "bytes_of_word32 w = map (\<lambda>i. ucast (drop_bit (8 * (3 - i)) w)) [0..<4]"

definition sha256_pad :: "8 word list \<Rightarrow> 8 word list" where
  "sha256_pad msg =
     (let l = length msg;
          k = (64 - (l + 9) mod 64) mod 64
      in msg @ [128] @ replicate k 0 @ bytes_of_word64 (of_nat (8 * l)))"

fun word32s :: "8 word list \<Rightarrow> 32 word list" where
  "word32s (a # b # c # d # rest) =
     (push_bit 24 (ucast a) OR push_bit 16 (ucast b) OR push_bit 8 (ucast c) OR ucast d) # word32s rest"
| "word32s _ = []"

fun schedule :: "nat \<Rightarrow> 32 word list \<Rightarrow> 32 word list" where
  "schedule 0 ws = ws"
| "schedule (Suc n) ws =
     (let t = length ws
      in schedule n (ws @ [ssig1 (ws ! (t - 2)) + ws ! (t - 7) + ssig0 (ws ! (t - 15)) + ws ! (t - 16)]))"

fun sha256_round :: "32 word list \<Rightarrow> 32 word \<times> 32 word \<Rightarrow> 32 word list" where
  "sha256_round [a, b, c, d, e, f, g, h] (k, w) =
     (let t1 = h + bsig1 e + Ch e f g + k + w;
          t2 = bsig0 a + Maj a b c
      in [t1 + t2, a, b, c, d + t1, e, f, g])"
| "sha256_round s _ = s"

definition sha256_block :: "32 word list \<Rightarrow> 32 word list \<Rightarrow> 32 word list" where
  "sha256_block hs blk =
     map2 (+) hs (foldl sha256_round hs (zip sha256_K (schedule 48 blk)))"

fun sha256_blocks :: "32 word list \<Rightarrow> 32 word list \<Rightarrow> 32 word list" where
  "sha256_blocks hs ws =
     (if length ws < 16 then hs else sha256_blocks (sha256_block hs (take 16 ws)) (drop 16 ws))"

definition sha256 :: "8 word list \<Rightarrow> 8 word list" where
  "sha256 msg = concat (map bytes_of_word32 (sha256_blocks sha256_H0 (word32s (sha256_pad msg))))"

definition encode_utf8 :: "string \<Rightarrow> 8 word list" where
  "encode_utf8 s = map (\<lambda>c. of_nat (of_char c)) s"

text \<open>\<open>int.from_bytes(bs, "big")\<close>\<close>

definition from_bytes_big :: "8 word list \<Rightarrow> int" where
  "from_bytes_big bs = foldl (\<lambda>acc b. acc * 256 + uint b) 0 bs"

subsection \<open>Helpers\<close>

definition seed_from_str :: "string \<Rightarrow> int" where
  "seed_from_str s = (let h = sha256 (encode_utf8 s) in from_bytes_big (take 8 h))"

definition rand_from_seed_int :: "int \<Rightarrow> real" where
  "rand_from_seed_int seed_int = real_of_int (seed_int mod 1000003) / 1000003.0"

definition clamp :: "real \<Rightarrow> real \<Rightarrow> real \<Rightarrow> real" where
  "clamp v lo hi = max lo (min hi v)"

text \<open>\<open>_clamp(v)\<close> with the default bounds \<open>lo = 0.0\<close>, \<open>hi = 1.0\<close>.\<close>

abbreviation clamp01 :: "real \<Rightarrow> real" where
  "clamp01 v \<equiv> clamp v 0.0 1.0"

definition normalize_speed_kmh :: "real \<Rightarrow> real \<Rightarrow> real" where
  "normalize_speed_kmh v max_kmh = clamp01 (v / max_kmh)"

subsection \<open>Edge metrics\<close>

record edge_metrics =
  edge_id :: string
  distance_km :: real
  track_condition :: real
  curve_severity :: real
  gradient_index :: real
  track_age :: real
  switch_count_norm :: real
  max_allowed_speed_kmh :: real
  drainage_risk :: real
  ballast_condition :: real
  embankment_susceptibility :: real
  electrification_health :: real
  switch_condition :: real

text \<open>\<open>(seed >> k) % m\<close> on a Python \<open>int\<close>, as a float operand.\<close>

definition seed_bits :: "int \<Rightarrow> nat \<Rightarrow> int \<Rightarrow> real" where
  "seed_bits seed k m = real_of_int (drop_bit k seed mod m)"

definition compute_edge_metrics :: "string \<Rightarrow> real \<Rightarrow> edge_metrics" where
  "compute_edge_metrics edge_id_v distance_km_v =
     (let seed = seed_from_str edge_id_v;
          r = rand_from_seed_int seed;
          track_condition_v =
            clamp01 (0.2 * r + 0.3 * seed_bits seed 7 100 / 100.0 + 0.1 * (distance_km_v / 10.0));
          curve_severity_v = clamp01 (0.1 * r + 0.6 * (seed_bits seed 13 100 / 100.0));
          gradient_index_v = clamp01 (0.05 * r + 0.4 * (seed_bits seed 19 100 / 100.0));
          track_age_v = clamp01 (0.2 * (seed_bits seed 23 100 / 100.0) + 0.3 * r);
          switch_count_norm_v = clamp01 (seed_bits seed 29 5 / 5.0);
          base_max_speed = 200.0 - (curve_severity_v * 80.0) - (gradient_index_v * 40.0);
          base_max_speed = max 40.0 (base_max_speed - (track_condition_v * 40.0));
          drainage_risk_v = clamp01 (0.3 * (seed_bits seed 17 100 / 100.0) + 0.4 * r);
          ballast_condition_v = clamp01 (0.25 * (seed_bits seed 11 100 / 100.0) + 0.5 * r);
          embankment_susceptibility_v = clamp01 (0.2 * r + 0.6 * (seed_bits seed 5 100 / 100.0));
          electrification_health_v = clamp01 (0.2 * r + 0.5 * (seed_bits seed 3 100 / 100.0));
          switch_condition_v = clamp01 (0.2 * r + 0.6 * (seed_bits seed 2 100 / 100.0))
      in \<lparr>edge_id = edge_id_v,
          distance_km = distance_km_v,
          track_condition = track_condition_v,
          curve_severity = curve_severity_v,
          gradient_index = gradient_index_v,
          track_age = track_age_v,
          switch_count_norm = switch_count_norm_v,
          max_allowed_speed_kmh = base_max_speed,
          drainage_risk = drainage_risk_v,
          ballast_condition = ballast_condition_v,
          embankment_susceptibility = embankment_susceptibility_v,
          electrification_health = electrification_health_v,
          switch_condition = switch_condition_v\<rparr>)"

subsection \<open>Network-level aggregator\<close>

text \<open>
  A station is a JSON object with the keys \<open>id\<close>, \<open>lat\<close>, \<open>lon\<close> (here \<open>station_id\<close>,
  \<open>station_lat\<close>, \<open>station_lon\<close>), an edge one with the keys \<open>source\<close> and \<open>target\<close>.
\<close>

record station =
  station_id :: "string option"
  station_lat :: "real option"
  station_lon :: "real option"

record edge =
  source :: "string option"
  target :: "string option"

record track_params =
  p21 :: real
  p22 :: real
  p23 :: real
  p24 :: real
  p25 :: real
  p26 :: real
  p27 :: real
  p28 :: real
  p29 :: real
  p30 :: real
  p31 :: real
  p32 :: real
  p33 :: real
  p34 :: real
  p35 :: real
  p36 :: real
  p37 :: real
  p38 :: real
  p39 :: real
  p40 :: real

text \<open>The summation accumulators of the loop over the edges.\<close>

record track_acc =
  sum_track_condition :: real
  sum_curve :: real
  sum_grad :: real
  sum_age :: real
  sum_switch_density :: real
  max_speed_seen :: real
  sum_gauge_var :: real
  sum_drainage :: real
  sum_ballast :: real
  sum_embank :: real
  sum_signal_gap :: real
  sum_switch_cond :: real
  sum_electr_health :: real
  sum_thermal_risk :: real
  total_utilization_proxy :: real
  sum_seg_len_km :: real
  sum_maintenance_overdue :: real
  sum_ballast_uniform :: real
  sum_lateral_clearance :: real

definition track_acc0 :: track_acc where
  "track_acc0 =
     \<lparr>sum_track_condition = 0.0, sum_curve = 0.0, sum_grad = 0.0, sum_age = 0.0,
      sum_switch_density = 0.0, max_speed_seen = 0.0, sum_gauge_var = 0.0, sum_drainage = 0.0,
      sum_ballast = 0.0, sum_embank = 0.0, sum_signal_gap = 0.0, sum_switch_cond = 0.0,
      sum_electr_health = 0.0, sum_thermal_risk = 0.0, total_utilization_proxy = 0.0,
      sum_seg_len_km = 0.0, sum_maintenance_overdue = 0.0, sum_ballast_uniform = 0.0,
      sum_lateral_clearance = 0.0\<rparr>"

text \<open>\<open>[s["id"] for s in stations[:5]]\<close>: a station without \<open>id\<close> raises.\<close>

fun station_ids :: "'a station_scheme list \<Rightarrow> py_error + string list" where
  "station_ids [] = Inr []"
| "station_ids (s # ss) =
     (case station_id s of
        None \<Rightarrow> Inl KeyError
      | Some i \<Rightarrow> (case station_ids ss of Inl e \<Rightarrow> Inl e | Inr is \<Rightarrow> Inr (i # is)))"

text \<open>
  \<open>next((x for x in stations if x["id"] == key), None)\<close>: the first station with that id;
  the generator stops there, and raises at a station without \<open>id\<close> met before.
\<close>

fun find_station :: "'a station_scheme list \<Rightarrow> string option \<Rightarrow> py_error + 'a station_scheme option" where
  "find_station [] key = Inr None"
| "find_station (x # xs) key =
     (case station_id x of
        None \<Rightarrow> Inl KeyError
      | Some i \<Rightarrow> if Some i = key then Inr (Some x) else find_station xs key)"

text \<open>The body of the \<open>try\<close> block: the planar distance, when both stations have \<open>lat\<close>.\<close>

definition planar_distance_km ::
  "'a station_scheme list \<Rightarrow> string option \<Rightarrow> string option \<Rightarrow> real \<Rightarrow> py_error + real" where
  "planar_distance_km stations src tgt default_segment_km =
     (case find_station stations src of
        Inl e \<Rightarrow> Inl e
      | Inr s \<Rightarrow>
     (case find_station stations tgt of
        Inl e \<Rightarrow> Inl e
      | Inr t \<Rightarrow>
     (case (s, t) of
        (Some s, Some t) \<Rightarrow>
          (case (station_lat s, station_lat t) of
             (Some slat, Some tlat) \<Rightarrow>
               (case (station_lon s, station_lon t) of
                  (Some slon, Some tlon) \<Rightarrow>
                    (let dlat = slat - tlat;
                         dlon = slon - tlon
                     in Inr (max 0.1 (sqrt (dlat ^ 2 + dlon ^ 2) * 111.0)))
                | _ \<Rightarrow> Inl KeyError)
           | _ \<Rightarrow> Inr default_segment_km)
      | _ \<Rightarrow> Inr default_segment_km)))"

text \<open>\<open>except Exception: distance_km = default_segment_km\<close>\<close>

definition edge_distance_km ::
  "'a station_scheme list \<Rightarrow> string option \<Rightarrow> string option \<Rightarrow> real \<Rightarrow> real" where
  "edge_distance_km stations src tgt default_segment_km =
     (case planar_distance_km stations src tgt default_segment_km of
        Inl e \<Rightarrow> default_segment_km
      | Inr d \<Rightarrow> d)"

text \<open>An f-string prints an absent key's \<open>None\<close> as the word.\<close>

definition py_str :: "string option \<Rightarrow> string" where
  "py_str v = (case v of None \<Rightarrow> ''None'' | Some s \<Rightarrow> s)"

definition py_in :: "string option \<Rightarrow> string set \<Rightarrow> bool" where
  "py_in v S = (case v of None \<Rightarrow> False | Some s \<Rightarrow> s \<in> S)"

definition edge_step ::
  "'a station_scheme list \<Rightarrow> string set \<Rightarrow> real \<Rightarrow> track_acc \<Rightarrow> 'b edge_scheme \<Rightarrow> track_acc" where
  "edge_step stations big_station_ids default_segment_km acc e =
     (let src = source e;
          tgt = target e;
          edge_id_v = py_str src @ ''-'' @ py_str tgt;
          distance_km_v = edge_distance_km stations src tgt default_segment_km;
          em = compute_edge_metrics edge_id_v distance_km_v;
          seed = seed_from_str edge_id_v;
          gauge_var = seed_bits seed 17 100 / 100.0
      in \<lparr>sum_track_condition = sum_track_condition acc + track_condition em,
          sum_curve = sum_curve acc + curve_severity em,
          sum_grad = sum_grad acc + gradient_index em,
          sum_age = sum_age acc + track_age em,
          sum_switch_density = sum_switch_density acc + switch_count_norm em / max 1.0 distance_km_v,
          max_speed_seen = max (max_speed_seen acc) (max_allowed_speed_kmh em),
          sum_gauge_var = sum_gauge_var acc + gauge_var,
          sum_drainage = sum_drainage acc + drainage_risk em,
          sum_ballast = sum_ballast acc + ballast_condition em,
          sum_embank = sum_embank acc + embankment_susceptibility em,
          sum_signal_gap = sum_signal_gap acc +
            (if py_in src big_station_ids \<or> py_in tgt big_station_ids
             then 0.2 * rand_from_seed_int seed else 0.5 * rand_from_seed_int seed),
          sum_switch_cond = sum_switch_cond acc + switch_condition em,
          sum_electr_health = sum_electr_health acc + electrification_health em,
          sum_thermal_risk = sum_thermal_risk acc + 0.2 * rand_from_seed_int seed,
          total_utilization_proxy = total_utilization_proxy acc +
            (if py_in src big_station_ids \<and> py_in tgt big_station_ids then 2.0 else 1.0),
          sum_seg_len_km = sum_seg_len_km acc + distance_km_v,
          sum_maintenance_overdue = sum_maintenance_overdue acc +
            track_age em * (0.3 + 0.7 * rand_from_seed_int seed),
          sum_ballast_uniform = sum_ballast_uniform acc + (1.0 - ballast_condition em),
          sum_lateral_clearance = sum_lateral_clearance acc + (1.0 - curve_severity em)\<rparr>)"

definition track_result :: "real \<Rightarrow> track_acc \<Rightarrow> track_params" where
  "track_result n_edges acc =
     (let avg_track_condition = clamp01 (sum_track_condition acc / n_edges);
          avg_curve = clamp01 (sum_curve acc / n_edges);
          avg_gradient = clamp01 (sum_grad acc / n_edges);
          avg_age = clamp01 (sum_age acc / n_edges);
          avg_switch_density = clamp01 (sum_switch_density acc / n_edges);
          p26_norm = normalize_speed_kmh (max_speed_seen acc) 200.0;
          avg_gauge_var = clamp01 (sum_gauge_var acc / n_edges);
          avg_drainage = clamp01 (sum_drainage acc / n_edges);
          avg_ballast = clamp01 (sum_ballast acc / n_edges);
          avg_embank = clamp01 (sum_embank acc / n_edges);
          avg_signal_gap = clamp01 (sum_signal_gap acc / n_edges);
          avg_switch_cond = clamp01 (sum_switch_cond acc / n_edges);
          avg_electr_health = clamp01 (sum_electr_health acc / n_edges);
          avg_thermal_risk = clamp01 (sum_thermal_risk acc / n_edges);
          track_utilization = clamp01 (total_utilization_proxy acc / (2.0 * n_edges));
          avg_seg_len_km = clamp01 (sum_seg_len_km acc / (n_edges * 100.0));
          maintenance_overdue = clamp01 (sum_maintenance_overdue acc / (n_edges * 1.0));
          ballast_uniformity = clamp01 (sum_ballast_uniform acc / n_edges);
          lateral_clearance = clamp01 (sum_lateral_clearance acc / n_edges);
          aggregate_track_risk = clamp01
            (0.20 * avg_track_condition
             + 0.15 * avg_curve
             + 0.10 * avg_gradient
             + 0.10 * avg_age
             + 0.10 * avg_drainage
             + 0.10 * (1.0 - ballast_uniformity)
             + 0.15 * maintenance_overdue)
      in \<lparr>p21 = avg_track_condition,
          p22 = avg_curve,
          p23 = avg_gradient,
          p24 = avg_age,
          p25 = clamp01 avg_switch_density,
          p26 = p26_norm,
          p27 = avg_gauge_var,
          p28 = avg_drainage,
          p29 = avg_ballast,
          p30 = avg_embank,
          p31 = avg_signal_gap,
          p32 = avg_switch_cond,
          p33 = avg_electr_health,
          p34 = avg_thermal_risk,
          p35 = track_utilization,
          p36 = avg_seg_len_km,
          p37 = maintenance_overdue,
          p38 = clamp01 (1.0 - avg_ballast),
          p39 = lateral_clearance,
          p40 = aggregate_track_risk\<rparr>)"

text \<open>\<open>{ f"p{21+i}": 0.0 for i in range(20) }\<close>\<close>

definition track_params_zero :: track_params where
  "track_params_zero =
     \<lparr>p21 = 0.0, p22 = 0.0, p23 = 0.0, p24 = 0.0, p25 = 0.0, p26 = 0.0, p27 = 0.0,
      p28 = 0.0, p29 = 0.0, p30 = 0.0, p31 = 0.0, p32 = 0.0, p33 = 0.0, p34 = 0.0,
      p35 = 0.0, p36 = 0.0, p37 = 0.0, p38 = 0.0, p39 = 0.0, p40 = 0.0\<rparr>"

definition compute_track_parameters ::
  "'a station_scheme list \<Rightarrow> 'b edge_scheme list \<Rightarrow> real \<Rightarrow> py_error + track_params" where
  "compute_track_parameters stations edges default_segment_km =
     (if edges = [] then Inr track_params_zero
      else
        (let n_edges = real (length edges)
         in case station_ids (take 5 stations) of
              Inl e \<Rightarrow> Inl e
            | Inr ids \<Rightarrow>
                (let big_station_ids = set ids;
                     acc = foldl (edge_step stations big_station_ids default_segment_km) track_acc0 edges
                 in Inr (track_result n_edges acc))))"

section \<open>extreme\_ai\_server.py\<close>

definition radians :: "real \<Rightarrow> real" where
  "radians x = x * pi / 180"

definition haversine :: "real \<Rightarrow> real \<Rightarrow> real \<Rightarrow> real \<Rightarrow> real" where
  "haversine lat1 lon1 lat2 lon2 =
     (let R = 6371000;
          dLat = radians (lat2 - lat1);
          dLon = radians (lon2 - lon1);
          a = (sin (dLat / 2)) ^ 2 +
              cos (radians lat1) *
              cos (radians lat2) *
              (sin (dLon / 2)) ^ 2
      in 2 * R * arcsin (sqrt a))"










section \<open>track\_segmenter.py\<close>

text \<open>
  The two imports of the module, \<open>haversine.haversine\<close> and
  \<open>environment_model.generate_segment_environment\<close>, are parameters of the model
  (\<open>haversine_fn\<close>, \<open>generate_segment_environment\<close>). \<open>stations\<close> is a dictionary from
  station names to station objects.
\<close>

record 'e segment =
  segment_id :: string
  segment_start :: "real \<times> real"
  segment_end :: "real \<times> real"
  segment_env :: 'e

definition digit_char :: "nat \<Rightarrow> char" where
  "digit_char d = ''0123456789'' ! d"

text \<open>\<open>str(i)\<close> for a non-negative \<open>int\<close>: its decimal digits.\<close>

function str_nat :: "nat \<Rightarrow> string" where
  "str_nat n = (if n < 10 then [digit_char n] else str_nat (n div 10) @ [digit_char (n mod 10)])"
  by pat_completeness auto
termination
  by (relation "measure (\<lambda>n. n)") auto

declare str_nat.simps [simp del]

definition make_segment ::
  "(string \<Rightarrow> real \<Rightarrow> 'e) \<Rightarrow> string \<Rightarrow> string \<Rightarrow> real \<Rightarrow>
     real \<Rightarrow> real \<Rightarrow> real \<Rightarrow> real \<Rightarrow> int \<Rightarrow> nat \<Rightarrow> 'e segment" where
  "make_segment generate_segment_environment u v segment_length lat1 lon1 lat2 lon2 num_segments i =
     (let t1 = real i / real_of_int num_segments;
          t2 = (real i + 1) / real_of_int num_segments;
          sx = lat1 + (lat2 - lat1) * t1;
          sy = lon1 + (lon2 - lon1) * t1;
          ex = lat1 + (lat2 - lat1) * t2;
          ey = lon1 + (lon2 - lon1) * t2;
          segment_id_v = u @ ''-'' @ v @ ''-'' @ str_nat i;
          segment_env_v = generate_segment_environment segment_id_v segment_length
      in \<lparr>segment_id = segment_id_v,
          segment_start = (sx, sy),
          segment_end = (ex, ey),
          segment_env = segment_env_v\<rparr>)"

definition segment_track ::
  "(real \<Rightarrow> real \<Rightarrow> real \<Rightarrow> real \<Rightarrow> real) \<Rightarrow> (string \<Rightarrow> real \<Rightarrow> 'e) \<Rightarrow>
     (string \<rightharpoonup> 'a station_scheme) \<Rightarrow> string \<Rightarrow> string \<Rightarrow> real \<Rightarrow> py_error + 'e segment list" where
  "segment_track haversine_fn generate_segment_environment stations u v segment_length =
     (case stations u of
        None \<Rightarrow> Inl KeyError
      | Some A \<Rightarrow>
     (case stations v of
        None \<Rightarrow> Inl KeyError
      | Some B \<Rightarrow>
     (case (station_lat A, station_lon A, station_lat B, station_lon B) of
        (Some lat1, Some lon1, Some lat2, Some lon2) \<Rightarrow>
          (let total_dist = haversine_fn lat1 lon1 lat2 lon2
           in if segment_length = 0 then Inl ZeroDivisionError
              else
                (let num_segments = max 1 \<lfloor>total_dist / segment_length\<rfloor>
                 in Inr (map (make_segment generate_segment_environment u v segment_length
                                lat1 lon1 lat2 lon2 num_segments)
                             [0 ..< nat num_segments])))
      | _ \<Rightarrow> Inl KeyError)))"

section \<open>Station capacity\<close>

subsection \<open>Rounding\<close>

lemma round_half_even_of_int: "round_half_even (real_of_int n) = n"
  by (simp add: round_half_even_def)

lemma round_half_even_nonneg: "0 \<le> x \<Longrightarrow> 0 \<le> round_half_even x"
  by (auto simp: round_half_even_def Let_def)

lemma round_half_even_up:
  assumes "real_of_int k \<le> x" "x < real_of_int k + 1" "1 / 2 < x - real_of_int k"
  shows "round_half_even x = k + 1"
proof -
  have "\<lfloor>x\<rfloor> = k" using assms(1,2) by (intro floor_unique) simp_all
  then show ?thesis using assms(3) by (simp add: round_half_even_def Let_def)
qed

lemma binary64_nonneg: "0 \<le> x \<Longrightarrow> binary64 x = Fin q \<Longrightarrow> 0 \<le> q"
  by (auto simp: binary64_def Let_def round_half_even_nonneg split: if_splits)

lemma binary64_normal:
  assumes lo: "2 powr real_of_int e \<le> \<bar>x\<bar>" and hi: "\<bar>x\<bar> < 2 powr real_of_int (e + 1)"
    and e: "- 1022 \<le> e" "e \<le> 1022"
    and m: "round_half_even (x / 2 powr real_of_int (e - 52)) = m" "\<bar>m\<bar> \<le> 2 ^ 53"
  shows "binary64 x = Fin (real_of_int m * 2 powr real_of_int (e - 52))"
proof -
  have xpos: "0 < \<bar>x\<bar>" using lo by (smt (verit) powr_gt_zero)
  then have x0: "x \<noteq> 0" by simp
  have "real_of_int e \<le> log 2 \<bar>x\<bar>" using lo xpos by (subst le_log_iff) simp_all
  moreover have "log 2 \<bar>x\<bar> < real_of_int e + 1" using hi xpos by (subst log_less_iff) simp_all
  ultimately have fl: "\<lfloor>log 2 \<bar>x\<bar>\<rfloor> = e" by (intro floor_unique) simp_all
  have e': "max \<lfloor>log 2 \<bar>x\<bar>\<rfloor> (- 1022) = e" unfolding fl using e(1) by simp
  have u0: "0 < 2 powr real_of_int (e - 52)" by simp
  have p53: "(2::real) ^ 53 = 2 powr 53" by simp
  have mr: "\<bar>real_of_int m\<bar> \<le> (2::real) ^ 53"
    using m(2) by (metis of_int_abs of_int_le_iff of_int_numeral of_int_power)
  have "\<bar>real_of_int m * 2 powr real_of_int (e - 52)\<bar> = \<bar>real_of_int m\<bar> * 2 powr real_of_int (e - 52)"
    by (simp add: abs_mult)
  also have "\<dots> \<le> 2 ^ 53 * 2 powr real_of_int (e - 52)"
    using mr u0 by (intro mult_right_mono) simp_all
  also have "\<dots> = 2 powr (53 + real_of_int (e - 52))" by (simp only: p53 powr_add)
  also have "\<dots> \<le> 2 powr 1023" using e(2) by (intro powr_mono) simp_all
  also have "\<dots> < 2 powr 1024" by (intro powr_less_mono) simp_all
  also have "\<dots> = 2 ^ 1024" by simp
  finally have bound: "\<bar>real_of_int m * 2 powr real_of_int (e - 52)\<bar> < 2 ^ 1024" .
  show ?thesis
    unfolding binary64_def Let_def e' m(1) using x0 bound by auto
qed

lemma binary64_2: "binary64 2 = Fin 2"
proof -
  have p: "2 powr real_of_int (1 - 52) = (1 / 2 ^ 51 :: real)"
    by (simp add: powr_neg_numeral)
  have r: "round_half_even (2 / 2 powr real_of_int (1 - 52)) = 2 ^ 52"
    unfolding p using round_half_even_of_int [of "2 ^ 52"] by simp
  have "binary64 2 = Fin (real_of_int (2 ^ 52) * 2 powr real_of_int (1 - 52))"
    by (rule binary64_normal [OF _ _ _ _ r]) simp_all
  then show ?thesis unfolding p by simp
qed

lemma binary64_minus_2: "binary64 (- 2) = Fin (- 2)"
proof -
  have p: "2 powr real_of_int (1 - 52) = (1 / 2 ^ 51 :: real)"
    by (simp add: powr_neg_numeral)
  have r: "round_half_even (- 2 / 2 powr real_of_int (1 - 52)) = - (2 ^ 52)"
    unfolding p using round_half_even_of_int [of "- (2 ^ 52)"] by simp
  have "binary64 (- 2) = Fin (real_of_int (- (2 ^ 52)) * 2 powr real_of_int (1 - 52))"
    by (rule binary64_normal [OF _ _ _ _ r]) simp_all
  then show ?thesis unfolding p by simp
qed

lemma binary64_402_20_1:
  "binary64 (402 / (2828823515942093 / 2 ^ 47)) = Fin 20"
proof -
  let ?x = "402 / (2828823515942093 / 2 ^ 47) :: real"
  have p: "2 powr real_of_int (4 - 52) = (1 / 2 ^ 48 :: real)"
    by (simp add: powr_neg_numeral)
  have q: "?x / (1 / 2 ^ 48) = 402 * 2 ^ 95 / 2828823515942093" by simp
  have r: "round_half_even (?x / 2 powr real_of_int (4 - 52)) = 5629499534213119 + 1"
    unfolding p q by (rule round_half_even_up) (simp_all add: field_simps)
  have "binary64 ?x = Fin (real_of_int (5629499534213119 + 1) * 2 powr real_of_int (4 - 52))"
    by (rule binary64_normal [OF _ _ _ _ r]) (simp_all add: field_simps)
  also have "real_of_int (5629499534213119 + 1) * 2 powr real_of_int (4 - 52) = 20"
    unfolding p by simp
  finally show ?thesis .
qed

lemma exact_floor_402_20_1: "\<lfloor>402 / (2828823515942093 / 2 ^ 47) :: real\<rfloor> = 19"
  by (rule floor_unique) (simp_all add: field_simps)

subsection \<open>Trains that fit a station\<close>

text \<open>
  C9 (as amended): for an average train length \<open>\<le> 0\<close> the count is 0; for a positive one
  it is the floor of the double that the division \<open>station_length_m / avg_train_length_m\<close>
  returns, that is of the exact quotient rounded to the nearest double; and a count that is
  returned for a non-negative station length is non-negative.
\<close>

theorem max_simultaneous_trains_floor:
  "(avg_train_length_m \<le> 0 \<longrightarrow>
      max_simultaneous_trains station_length_m avg_train_length_m = Inr 0)
   \<and> (0 < avg_train_length_m \<longrightarrow>
       (\<forall>q. binary64 (station_length_m / avg_train_length_m) = Fin q \<longrightarrow>
          max_simultaneous_trains station_length_m avg_train_length_m = Inr \<lfloor>q\<rfloor>))
   \<and> (0 \<le> station_length_m \<longrightarrow>
       (\<forall>n. max_simultaneous_trains station_length_m avg_train_length_m = Inr n \<longrightarrow> 0 \<le> n))"
proof -
  have nonneg: "0 \<le> n"
    if "0 \<le> station_length_m" "max_simultaneous_trains station_length_m avg_train_length_m = Inr n" for n
  proof (cases "avg_train_length_m \<le> 0")
    case True
    with that show ?thesis by (simp add: max_simultaneous_trains_def)
  next
    case False
    then have "0 \<le> station_length_m / avg_train_length_m" using that(1) by simp
    with that(2) False show ?thesis
      by (auto simp: max_simultaneous_trains_def split: pyfloat.splits dest: binary64_nonneg)
  qed
  show ?thesis
    using nonneg by (auto simp: max_simultaneous_trains_def)
qed

text \<open>
  The rounding matters: \<open>402.0 / 20.1\<close> (20.1 is the double \<open>2828823515942093 / 2 ^ 47\<close>) is
  just below 20 and rounds to \<open>20.0\<close>, so the count is 20 where the floor of the exact
  quotient is 19.
\<close>

theorem max_simultaneous_trains_floor_witness:
  "max_simultaneous_trains 400 0 = Inr 0
   \<and> binary64 (400 / 200) = Fin 2 \<and> max_simultaneous_trains 400 200 = Inr 2
   \<and> binary64 (402 / (2828823515942093 / 2 ^ 47)) = Fin 20
   \<and> max_simultaneous_trains 402 (2828823515942093 / 2 ^ 47) = Inr 20
   \<and> \<lfloor>402 / (2828823515942093 / 2 ^ 47) :: real\<rfloor> = 19
   \<and> (0::real) \<le> 400 \<and> (0::int) \<le> 2"
proof -
  have b2: "binary64 (400 / 200) = Fin 2" using binary64_2 by simp
  have a: "max_simultaneous_trains 400 0 = Inr 0"
    using max_simultaneous_trains_floor [of 0 400] by simp
  have b: "max_simultaneous_trains 400 200 = Inr 2"
    using max_simultaneous_trains_floor [of 200 400] b2 by simp
  have c: "max_simultaneous_trains 402 (2828823515942093 / 2 ^ 47) = Inr 20"
    using max_simultaneous_trains_floor [of "2828823515942093 / 2 ^ 47" 402] binary64_402_20_1
    by simp
  have d: "(0::real) \<le> 400 \<and> (0::int) \<le> 2"
    using max_simultaneous_trains_floor [of 200 400] b by simp
  from a b2 b binary64_402_20_1 c exact_floor_402_20_1 d show ?thesis by (intro conjI) simp_all
qed

text \<open>
  C9 as stated fails: a negative station length with a positive train length gives a
  negative count (\<open>-400.0 / 200.0\<close> is exactly \<open>-2.0\<close>), where the claim has 0 and "never
  negative".
\<close>

theorem max_simultaneous_trains_negative:
  "max_simultaneous_trains (- 400) 200 = Inr (- 2)"
  using binary64_minus_2 by (simp add: max_simultaneous_trains_def)

text \<open>
  C4: when \<open>avg_dwell_s + buffer_s \<le> 0\<close> both capacities are the float \<open>inf\<close> (no division
  takes place); when the sum is positive, \<open>capacity_per_platform\<close> is
  \<open>3600 / (avg_dwell_s + buffer_s)\<close> and \<open>station_capacity\<close> is that value times
  \<open>max(1, num_platforms)\<close>.
\<close>

theorem capacity_unbounded_or_quotient:
  "(avg_dwell_s + buffer_s \<le> 0 \<longrightarrow>
      capacity_per_platform avg_dwell_s buffer_s = PosInf
      \<and> station_capacity num_platforms avg_dwell_s buffer_s = PosInf)
   \<and> (0 < avg_dwell_s + buffer_s \<longrightarrow>
      capacity_per_platform avg_dwell_s buffer_s = Fin (3600 / (avg_dwell_s + buffer_s))
      \<and> station_capacity num_platforms avg_dwell_s buffer_s
          = Fin (3600 / (avg_dwell_s + buffer_s) * real_of_int (max 1 num_platforms)))"
  by (simp add: capacity_per_platform_def station_capacity_def Let_def less_max_iff_disj)

theorem capacity_unbounded_or_quotient_witness:
  "(0::real) + 0 \<le> 0 \<and> capacity_per_platform 0 0 = PosInf \<and> station_capacity 2 0 0 = PosInf
   \<and> (0::real) < 150 + 30 \<and> capacity_per_platform 150 30 = Fin 20
   \<and> station_capacity 2 150 30 = Fin 40 \<and> station_capacity 0 150 30 = Fin 20"
  using capacity_unbounded_or_quotient [of 0 0 2] capacity_unbounded_or_quotient [of 150 30 2]
    capacity_unbounded_or_quotient [of 150 30 0]
  by simp

section \<open>Track risk\<close>

lemma clamp01_bounds: "0 \<le> clamp v 0.0 1.0 \<and> clamp v 0.0 1.0 \<le> 1"
  by (simp add: clamp_def)



text \<open>
  C10: for every edge identity string and every distance, \<open>max_allowed_speed_kmh\<close> lies in
  the closed interval from 40 to 200.
\<close>

theorem max_allowed_speed_kmh_range:
  "40 \<le> max_allowed_speed_kmh (compute_edge_metrics edge_id_v distance_km_v)
   \<and> max_allowed_speed_kmh (compute_edge_metrics edge_id_v distance_km_v) \<le> 200"
proof -
  define c where "c = curve_severity (compute_edge_metrics edge_id_v distance_km_v)"
  define g where "g = gradient_index (compute_edge_metrics edge_id_v distance_km_v)"
  define t where "t = track_condition (compute_edge_metrics edge_id_v distance_km_v)"
  have c: "0 \<le> c" and g: "0 \<le> g" and t: "0 \<le> t"
    unfolding c_def g_def t_def compute_edge_metrics_def Let_def
    using clamp01_bounds by simp_all
  have m: "max_allowed_speed_kmh (compute_edge_metrics edge_id_v distance_km_v)
             = max 40 (200 - c * 80 - g * 40 - t * 40)"
    unfolding c_def g_def t_def compute_edge_metrics_def Let_def by simp
  show ?thesis unfolding m using c g t by simp
qed

text \<open>
  C8: with an empty edge list, whatever the stations and the default distance, the result
  is the record of the twenty indicators \<open>p21\<close> .. \<open>p40\<close>, all 0, and not an error.
\<close>

theorem compute_track_parameters_no_edges:
  "compute_track_parameters stations [] default_segment_km =
     Inr \<lparr>p21 = 0, p22 = 0, p23 = 0, p24 = 0, p25 = 0, p26 = 0, p27 = 0, p28 = 0, p29 = 0,
          p30 = 0, p31 = 0, p32 = 0, p33 = 0, p34 = 0, p35 = 0, p36 = 0, p37 = 0, p38 = 0,
          p39 = 0, p40 = 0\<rparr>"
  by (simp add: compute_track_parameters_def track_params_zero_def)

section \<open>Train kinematics\<close>

lemma train_loop_Cons:
  "train_id t = Some i \<Longrightarrow>
     train_loop (t # ts) r =
       (fst (train_loop ts (r(i \<mapsto> fst (train_indicators t)))),
        t\<lparr>prev_speed := Some (fst (snd (train_indicators t))),
          prev_accel := Some (snd (snd (train_indicators t)))\<rparr>
        # snd (train_loop ts (r(i \<mapsto> fst (train_indicators t)))))"
  by (simp add: case_prod_beta Let_def)

lemma train_loop_Cons_None:
  "train_id t = None \<Longrightarrow> train_loop (t # ts) r = (Inl KeyError, t # ts)"
  by simp

lemma train_loop_state:
  "fst (train_loop ts r) = Inr res \<Longrightarrow>
     snd (train_loop ts r) =
       map (\<lambda>t. t\<lparr>prev_speed := Some (fst (snd (train_indicators t))),
                  prev_accel := Some (snd (snd (train_indicators t)))\<rparr>) ts"
proof (induction ts arbitrary: r)
  case Nil
  then show ?case by simp
next
  case (Cons t ts)
  show ?case
  proof (cases "train_id t")
    case None
    with Cons.prems show ?thesis by (simp add: train_loop_Cons_None)
  next
    case (Some i)
    from Cons.prems(1) Some
    have "fst (train_loop ts (r(i \<mapsto> fst (train_indicators t)))) = Inr res"
      by (simp add: train_loop_Cons del: train_loop.simps)
    from Cons.IH [OF this] show ?thesis
      by (simp only: train_loop_Cons [OF Some] snd_conv list.map)
  qed
qed

lemma train_indicators_carry:
  "fst (snd (train_indicators t)) = py_get (speed t) 0"
  "snd (snd (train_indicators t)) = py_get (speed t) 0 - py_get (prev_speed t) (py_get (speed t) 0)"
  by (simp_all add: train_indicators_def Let_def)

lemma p9_train_indicators:
  "p9 (fst (train_indicators t)) =
     (case startTime t of
        None \<Rightarrow> 0
      | Some st \<Rightarrow>
          if st > 0 then
            (case now t of None \<Rightarrow> 0 | Some n \<Rightarrow> min 1 (((n - st) / 1000) / 3600))
          else 0)"
  by (simp add: train_indicators_def Let_def py_get_def split: option.splits)

lemma compute_T1: "fst (compute_train_parameters [train_T1]) = Inr [''T1'' \<mapsto> fst (train_indicators train_T1)]"
  by (simp add: compute_train_parameters_def train_loop_Cons [where i = "''T1''"] train_T1_def del: train_loop.simps(2))

text \<open>
  C6: when \<open>compute_train_parameters\<close> returns, the snapshots are the ones it was given,
  each with \<open>prev_speed\<close> set to its current speed (0 when the key \<open>speed\<close> is absent) and
  \<open>prev_accel\<close> set to the acceleration computed for it in this call, current speed minus
  previous speed; every other field, and every key the module does not know, is as before.
\<close>

theorem compute_train_parameters_frame:
  "fst (compute_train_parameters trains) = Inr res \<Longrightarrow>
     snd (compute_train_parameters trains) =
       map (\<lambda>t. t\<lparr>prev_speed := Some (py_get (speed t) 0),
                  prev_accel := Some (py_get (speed t) 0 - py_get (prev_speed t) (py_get (speed t) 0))\<rparr>)
           trains
     \<and> (\<forall>t \<in> set trains. snd (snd (train_indicators t))
            = py_get (speed t) 0 - py_get (prev_speed t) (py_get (speed t) 0))"
  unfolding compute_train_parameters_def
  by (simp add: train_loop_state train_indicators_carry)

lemma compute_T1_T2:
  "fst (compute_train_parameters [train_T1\<lparr>prev_speed := Some 90\<rparr>, train_T2]) =
     Inr [''T1'' \<mapsto> fst (train_indicators (train_T1\<lparr>prev_speed := Some 90\<rparr>)),
          ''T2'' \<mapsto> fst (train_indicators train_T2)]"
  by (simp add: compute_train_parameters_def train_loop_Cons [where i = "''T1''"]
        train_loop_Cons [where i = "''T2''"] train_T1_def train_T2_def del: train_loop.simps(2))

theorem compute_train_parameters_frame_witness:
  "fst (compute_train_parameters [train_T1\<lparr>prev_speed := Some 90\<rparr>, train_T2]) =
     Inr [''T1'' \<mapsto> fst (train_indicators (train_T1\<lparr>prev_speed := Some 90\<rparr>)),
          ''T2'' \<mapsto> fst (train_indicators train_T2)]
   \<and> snd (compute_train_parameters [train_T1\<lparr>prev_speed := Some 90\<rparr>, train_T2]) =
       [train_T1\<lparr>prev_speed := Some 100, prev_accel := Some 10\<rparr>,
        train_T2\<lparr>prev_speed := Some 80, prev_accel := Some 0\<rparr>]"
  using compute_train_parameters_frame [OF compute_T1_T2] compute_T1_T2
  by (simp add: py_get_def train_T1_def train_T2_def)

text \<open>
  C5: on \<open>T1\<close> of \<open>test_basic_functionality\<close> (\<open>startTime = 1000000\<close>, \<open>now = 1003600\<close>, which
  the test labels "1 hour later") the code returns \<open>p9 = 0.001\<close>: it divides the difference
  by 1000 before it divides by the 3600 reference. The claim, and the test's reading of the
  time fields, give \<open>min(1.0, (1003600 - 1000000) / 3600) = 1.0\<close>.
\<close>

theorem p9_T1_one_hour_later:
  "map_option p9 (params_of (fst (compute_train_parameters [train_T1])) ''T1'') = Some (1 / 1000)
   \<and> map_option p9 (params_of (fst (compute_train_parameters [train_T1])) ''T1'')
       \<noteq> Some (min 1 ((1003600 - 1000000) / 3600))"
  by (simp add: compute_T1 params_of_def p9_train_indicators) (simp add: train_T1_def)

text \<open>
  C3: the snapshot \<open>{"id": "T4", "speed": -50}\<close> of \<open>test_edge_cases\<close> gets the speed
  indicator \<open>p1 = -0.25\<close>, below the range 0..1: \<open>p1\<close> is capped at 1.0 from above only.
\<close>

theorem p1_negative_speed:
  "map_option p1 (params_of (fst (compute_train_parameters [train_neg])) ''T4'') = Some (- 1 / 4)"
  by (simp add: compute_train_parameters_def params_of_def
        train_loop_Cons [where i = "''T4''"] train_neg_def train_indicators_def Let_def py_get_def
        del: train_loop.simps(2))

section \<open>Reproducibility of the edge metrics\<close>








section \<open>Geodesy\<close>

lemma haversine_meridian:
  assumes "0 \<le> d" "d \<le> 6371000 * pi"
  shows "haversine 0 0 (d / 6371000 * 180 / pi) 0 = d"
proof -
  define y where "y = d / (2 * 6371000)"
  have y: "0 \<le> y" "y \<le> pi / 2" unfolding y_def using assms by (simp_all add: field_simps)
  have rad: "radians (d / 6371000 * 180 / pi - 0) / 2 = y"
    unfolding radians_def y_def by simp
  have s: "0 \<le> sin y" using y by (intro sin_ge_zero) simp_all
  have "haversine 0 0 (d / 6371000 * 180 / pi) 0 = 2 * 6371000 * arcsin (sqrt ((sin y)\<^sup>2))"
    unfolding haversine_def Let_def rad by (simp add: radians_def)
  also have "sqrt ((sin y)\<^sup>2) = sin y" using s by simp
  also have "arcsin (sin y) = y" using y by (intro arcsin_sin) simp_all
  finally show ?thesis unfolding y_def by simp
qed

lemma haversine_same: "haversine la lo la lo = 0"
  by (simp add: haversine_def radians_def)

lemma pi_bounds_6371000: "(34::real) \<le> 6371000 * pi" "(250::real) \<le> 6371000 * pi" "(1000::real) \<le> 6371000 * pi"
  using pi_ge_two by simp_all



section \<open>Collision arbitration\<close>



section \<open>Track segmentation\<close>

lemma make_segment_fields:
  "segment_id (make_segment gen u v sl lat1 lon1 lat2 lon2 n i) = u @ ''-'' @ v @ ''-'' @ str_nat i"
  "segment_start (make_segment gen u v sl lat1 lon1 lat2 lon2 n i) =
     (lat1 + (lat2 - lat1) * (real i / real_of_int n), lon1 + (lon2 - lon1) * (real i / real_of_int n))"
  "segment_end (make_segment gen u v sl lat1 lon1 lat2 lon2 n i) =
     (lat1 + (lat2 - lat1) * ((real i + 1) / real_of_int n),
      lon1 + (lon2 - lon1) * ((real i + 1) / real_of_int n))"
  "segment_env (make_segment gen u v sl lat1 lon1 lat2 lon2 n i) = gen (u @ ''-'' @ v @ ''-'' @ str_nat i) sl"
  by (simp_all add: make_segment_def Let_def)

text \<open>
  C7: for an edge whose two endpoint stations are known and have coordinates, and a
  segment length other than 0, \<open>segment_track\<close> returns exactly
  \<open>max(1, floor(total_distance / segment_length))\<close> segments; segment \<open>i\<close> runs from the
  fraction \<open>i/n\<close> to the fraction \<open>(i+1)/n\<close> of the way between the endpoints, its identifier
  is \<open>u-v-i\<close>, and its environment record is the one generated for that identifier and the
  segment length. In particular a 250 m edge with 100 m segments has 2 segments.
\<close>

theorem segment_track_floor:
  assumes "stations u = Some A" and "stations v = Some B"
    and "station_lat A = Some lat1" and "station_lon A = Some lon1"
    and "station_lat B = Some lat2" and "station_lon B = Some lon2"
    and "segment_length \<noteq> 0"
  shows "\<exists>segs.
     segment_track haversine_fn generate_segment_environment stations u v segment_length = Inr segs
     \<and> int (length segs) = max 1 \<lfloor>haversine_fn lat1 lon1 lat2 lon2 / segment_length\<rfloor>
     \<and> (\<forall>i < length segs.
           segment_id (segs ! i) = u @ ''-'' @ v @ ''-'' @ str_nat i
         \<and> segment_start (segs ! i) =
             (lat1 + (lat2 - lat1) * (real i / real (length segs)),
              lon1 + (lon2 - lon1) * (real i / real (length segs)))
         \<and> segment_end (segs ! i) =
             (lat1 + (lat2 - lat1) * ((real i + 1) / real (length segs)),
              lon1 + (lon2 - lon1) * ((real i + 1) / real (length segs)))
         \<and> segment_env (segs ! i) =
             generate_segment_environment (segment_id (segs ! i)) segment_length)
     \<and> (haversine_fn lat1 lon1 lat2 lon2 = 250 \<and> segment_length = 100 \<longrightarrow> length segs = 2)"
proof -
  define n where "n = max 1 \<lfloor>haversine_fn lat1 lon1 lat2 lon2 / segment_length\<rfloor>"
  define segs where
    "segs = map (make_segment generate_segment_environment u v segment_length lat1 lon1 lat2 lon2 n)
              [0 ..< nat n]"
  have n1: "1 \<le> n" unfolding n_def by simp
  have run: "segment_track haversine_fn generate_segment_environment stations u v segment_length = Inr segs"
    using assms unfolding segment_track_def segs_def n_def by (simp add: Let_def)
  have len: "int (length segs) = n" unfolding segs_def using n1 by simp
  then have rlen: "real (length segs) = real_of_int n"
    by (metis of_int_of_nat_eq)
  have each: "\<forall>i < length segs.
           segment_id (segs ! i) = u @ ''-'' @ v @ ''-'' @ str_nat i
         \<and> segment_start (segs ! i) =
             (lat1 + (lat2 - lat1) * (real i / real (length segs)),
              lon1 + (lon2 - lon1) * (real i / real (length segs)))
         \<and> segment_end (segs ! i) =
             (lat1 + (lat2 - lat1) * ((real i + 1) / real (length segs)),
              lon1 + (lon2 - lon1) * ((real i + 1) / real (length segs)))
         \<and> segment_env (segs ! i) =
             generate_segment_environment (segment_id (segs ! i)) segment_length"
    unfolding rlen by (simp add: segs_def make_segment_fields)
  have ex: "haversine_fn lat1 lon1 lat2 lon2 = 250 \<and> segment_length = 100 \<longrightarrow> length segs = 2"
    using len unfolding n_def by auto
  from run len each ex show ?thesis unfolding n_def by blast
qed

theorem segment_track_floor_witness:
  "\<exists>segs.
     segment_track haversine (\<lambda>sid d. (sid, d))
       [''DEL'' \<mapsto> \<lparr>station_id = Some ''DEL'', station_lat = Some 0, station_lon = Some 0\<rparr>,
        ''GZB'' \<mapsto> \<lparr>station_id = Some ''GZB'', station_lat = Some (250 / 6371000 * 180 / pi),
                    station_lon = Some 0\<rparr>]
       ''DEL'' ''GZB'' 100 = Inr segs
     \<and> length segs = 2
     \<and> map segment_id segs = [''DEL-GZB-0'', ''DEL-GZB-1'']"
proof -
  let ?st = "[''DEL'' \<mapsto> \<lparr>station_id = Some ''DEL'', station_lat = Some 0, station_lon = Some 0\<rparr>,
        ''GZB'' \<mapsto> \<lparr>station_id = Some ''GZB'', station_lat = Some (250 / 6371000 * 180 / pi),
                    station_lon = Some 0\<rparr>]"
  have h250: "haversine 0 0 (250 / 6371000 * 180 / pi) 0 = 250"
    by (rule haversine_meridian) (simp_all add: pi_bounds_6371000)
  have "\<exists>segs.
     segment_track haversine (\<lambda>sid d. (sid, d)) ?st ''DEL'' ''GZB'' 100 = Inr segs
     \<and> int (length segs) = max 1 \<lfloor>haversine 0 0 (250 / 6371000 * 180 / pi) 0 / 100\<rfloor>
     \<and> (\<forall>i < length segs.
           segment_id (segs ! i) = ''DEL'' @ ''-'' @ ''GZB'' @ ''-'' @ str_nat i
         \<and> segment_start (segs ! i) =
             (0 + (250 / 6371000 * 180 / pi - 0) * (real i / real (length segs)),
              0 + (0 - 0) * (real i / real (length segs)))
         \<and> segment_end (segs ! i) =
             (0 + (250 / 6371000 * 180 / pi - 0) * ((real i + 1) / real (length segs)),
              0 + (0 - 0) * ((real i + 1) / real (length segs)))
         \<and> segment_env (segs ! i) = (segment_id (segs ! i), 100))
     \<and> (haversine 0 0 (250 / 6371000 * 180 / pi) 0 = 250 \<and> (100::real) = 100 \<longrightarrow> length segs = 2)"
    by (rule segment_track_floor
          [where A = "\<lparr>station_id = Some ''DEL'', station_lat = Some 0, station_lon = Some 0\<rparr>"
             and B = "\<lparr>station_id = Some ''GZB'', station_lat = Some (250 / 6371000 * 180 / pi),
                       station_lon = Some 0\<rparr>"])
       simp_all
  then obtain segs where
    run: "segment_track haversine (\<lambda>sid d. (sid, d)) ?st ''DEL'' ''GZB'' 100 = Inr segs"
    and ids: "\<forall>i < length segs. segment_id (segs ! i) = ''DEL'' @ ''-'' @ ''GZB'' @ ''-'' @ str_nat i"
    and two: "haversine 0 0 (250 / 6371000 * 180 / pi) 0 = 250 \<and> (100::real) = 100 \<longrightarrow> length segs = 2"
    by blast
  from two h250 have l2: "length segs = 2" by simp
  have s0: "str_nat 0 = ''0''" and s1: "str_nat 1 = ''1''"
    by (simp_all add: str_nat.simps digit_char_def)
  from ids l2 have "segment_id (segs ! 0) = ''DEL-GZB-0''" "segment_id (segs ! 1) = ''DEL-GZB-1''"
    using s0 s1 by simp_all
  with l2 have m: "map segment_id segs = [''DEL-GZB-0'', ''DEL-GZB-1'']"
    by (intro nth_equalityI) (auto simp: less_Suc_eq numeral_2_eq_2)
  show ?thesis
    by (rule exI [of _ segs]) (simp only: run l2 m simp_thms)
qed

end
